theory Spec2Isabelle
  imports Main "HOL-Library.Word" "HOL-Library.Code_Target_Nat"
begin

unbundle bit_operations_syntax

section \<open>Configuration store\<close>

text \<open>
  \<^verbatim>\<open>enum class prefix : uint32_t\<close>: a prefix mask is any 32-bit value; the named
  flags are the powers of two below.
\<close>

type_synonym prefix = "32 word"

definition NONE :: prefix where "NONE = 0"
definition FILE :: prefix where "FILE = push_bit 0 1"
definition LINE :: prefix where "LINE = push_bit 1 1"
definition FUNCTION :: prefix where "FUNCTION = push_bit 2 1"
definition TIME :: prefix where "TIME = push_bit 3 1"
definition THREAD :: prefix where "THREAD = push_bit 4 1"
definition TYPE_NAME :: prefix where "TYPE_NAME = push_bit 5 1"

text \<open>\<^verbatim>\<open>operator&\<close>, \<^verbatim>\<open>operator|\<close> and \<^verbatim>\<open>operator^\<close> on \<^verbatim>\<open>prefix\<close>: the bit
  operation of the underlying \<^verbatim>\<open>uint32_t\<close>.\<close>

definition prefix_and :: "prefix \<Rightarrow> prefix \<Rightarrow> prefix" where
  "prefix_and lhs rhs = lhs AND rhs"

definition prefix_or :: "prefix \<Rightarrow> prefix \<Rightarrow> prefix" where
  "prefix_or lhs rhs = lhs OR rhs"

definition prefix_xor :: "prefix \<Rightarrow> prefix \<Rightarrow> prefix" where
  "prefix_xor lhs rhs = lhs XOR rhs"

text \<open>The three process-wide variables of namespace \<^verbatim>\<open>internal\<close>.\<close>

record config =
  curPrefixes :: prefix
  outputEnabled :: bool
  colorEnabled :: bool

definition initial_config :: config where
  "initial_config =
     \<lparr>curPrefixes = prefix_or FILE LINE, outputEnabled = True, colorEnabled = False\<rparr>"

definition get_prefixes :: "config \<Rightarrow> prefix" where
  "get_prefixes s = curPrefixes s"

definition set_prefixes :: "prefix \<Rightarrow> config \<Rightarrow> config" where
  "set_prefixes p s = s\<lparr>curPrefixes := p\<rparr>"

definition is_output_enabled :: "config \<Rightarrow> bool" where
  "is_output_enabled s = outputEnabled s"

definition set_output_enabled :: "bool \<Rightarrow> config \<Rightarrow> config" where
  "set_output_enabled e s = s\<lparr>outputEnabled := e\<rparr>"

definition set_color_enabled :: "bool \<Rightarrow> config \<Rightarrow> config" where
  "set_color_enabled e s = s\<lparr>colorEnabled := e\<rparr>"

definition is_color_enabled :: "config \<Rightarrow> bool" where
  "is_color_enabled s = colorEnabled s"


section \<open>Text written to the stream\<close>

text \<open>
  The sink is a \<^verbatim>\<open>std::ostream\<close> in its default formatting state; what is written
  to it is a \<^typ>\<open>string\<close>. \<open>show_nat\<close> and \<open>show_int\<close> are the stream's
  \<^verbatim>\<open>operator<<\<close> for unsigned and signed integers: base 10, no padding, a leading
  minus sign for a negative number.
\<close>

definition digit :: "nat \<Rightarrow> char" where
  "digit d = ''0123456789'' ! d"

function show_nat :: "nat \<Rightarrow> string" where
  "show_nat n = (if n < 10 then [digit n] else show_nat (n div 10) @ [digit (n mod 10)])"
  by pat_completeness auto
termination
  by (relation "measure (\<lambda>n. n)") auto

definition show_int :: "int \<Rightarrow> string" where
  "show_int i = (if i < 0 then CHR ''-'' # show_nat (nat (- i)) else show_nat (nat i))"

text \<open>\<^verbatim>\<open>GL_NEWLINE\<close> in its default setting, the character \<^verbatim>\<open>'\n'\<close>.\<close>

definition GL_NEWLINE :: string where
  "GL_NEWLINE = [CHR 0x0A]"

definition color_start :: "config \<Rightarrow> string" where
  "color_start s = (if colorEnabled s then CHR 0x1B # ''[0;31m'' else [])"

definition color_end :: "config \<Rightarrow> string" where
  "color_end s = (if colorEnabled s then CHR 0x1B # ''[0m'' else [])"

definition type_name :: "config \<Rightarrow> string" where
  "type_name s = (if prefix_and (curPrefixes s) TYPE_NAME \<noteq> NONE then ''type '' else [])"

section \<open>Prefix decorator\<close>

text \<open>
  What the decorator takes from outside the library: the path separator of the target
  (\<^verbatim>\<open>'\\'\<close> under \<^verbatim>\<open>_WIN32\<close>, \<^verbatim>\<open>'/'\<close> elsewhere), the result of
  \<^verbatim>\<open>std::localtime\<close> on the sampled clock (\<open>None\<close> for a null pointer), the
  milliseconds within the sampled second, and the text the stream writes for
  \<^verbatim>\<open>std::this_thread::get_id()\<close>.
\<close>

record tm =
  tm_hour :: nat
  tm_min :: nat
  tm_sec :: nat

record platform =
  sep :: char
  localtime :: "tm option"
  ms :: nat
  thread_id :: string

text \<open>A C string is the list of its characters before the terminating zero.\<close>

record Prefixer =
  m_file_path :: string
  m_file_line :: int
  m_func :: string

text \<open>
  \<^verbatim>\<open>size_t\<close> is 64 bits wide; \<^verbatim>\<open>std::numeric_limits<size_t>::max()\<close> is both the
  "not found" value of \<^verbatim>\<open>sep_idx\<close> and the value at which the downward loop stops,
  reached by decrementing 0. \<open>size_dec\<close> is \<^verbatim>\<open>--i\<close> (and \<^verbatim>\<open>str_len - 1\<close>) with
  that wrap-around.
\<close>

definition SIZE_MAX :: nat where
  "SIZE_MAX = 2 ^ 64 - 1"

definition size_dec :: "nat \<Rightarrow> nat" where
  "size_dec i = (i + SIZE_MAX) mod 2 ^ 64"

function sep_loop :: "char \<Rightarrow> string \<Rightarrow> nat \<Rightarrow> nat" where
  "sep_loop c path i =
     (if i \<noteq> SIZE_MAX
      then (if path ! i = c then i else sep_loop c path (size_dec i))
      else SIZE_MAX)"
  by pat_completeness auto
termination
proof (relation "measure (\<lambda>(c, path, i). if i = SIZE_MAX then 0 else i + 1)")
  show "wf (measure (\<lambda>(c :: char, path :: string, i :: nat).
              if i = SIZE_MAX then 0 else i + 1))"
    by simp
next
  fix c :: char and path :: string and i :: nat
  assume ne: "i \<noteq> SIZE_MAX"
  have "size_dec i \<noteq> SIZE_MAX \<Longrightarrow> size_dec i < i"
  proof -
    assume ne': "size_dec i \<noteq> SIZE_MAX"
    show "size_dec i < i"
    proof (cases "i < 2 ^ 64")
      case True
      have "size_dec 0 = SIZE_MAX"
        by (simp add: size_dec_def SIZE_MAX_def)
      with ne' have "i \<noteq> 0"
        by (cases "i = 0") simp_all
      with True show ?thesis
        by (simp add: size_dec_def SIZE_MAX_def mod_if)
    next
      case False
      have "size_dec i < 2 ^ 64"
        by (simp add: size_dec_def)
      with False show ?thesis by simp
    qed
  qed
  then show "((c, path, size_dec i), (c, path, i))
        \<in> measure (\<lambda>(c, path, i). if i = SIZE_MAX then 0 else i + 1)"
    using ne by auto
qed

definition file_name :: "char \<Rightarrow> string \<Rightarrow> string" where
  "file_name c path =
     (let str_len = length path;
          sep_idx = sep_loop c path (size_dec str_len)
      in if sep_idx = SIZE_MAX then path else drop (sep_idx + 1) path)"

text \<open>\<^verbatim>\<open>std::put_time(local, "%H:%M:%S")\<close>: three fields of two digits each.\<close>

definition two_digits :: "nat \<Rightarrow> string" where
  "two_digits n = (if n < 10 then CHR ''0'' # show_nat n else show_nat n)"

definition put_time :: "tm \<Rightarrow> string" where
  "put_time t = two_digits (tm_hour t) @ '':'' @ two_digits (tm_min t) @ '':''
                @ two_digits (tm_sec t)"

text \<open>\<^verbatim>\<open>std::setfill('0') << std::setw(3) << ms.count()\<close>.\<close>

definition setw3 :: "nat \<Rightarrow> string" where
  "setw3 n = replicate (3 - length (show_nat n)) (CHR ''0'') @ show_nat n"

text \<open>
  \<^verbatim>\<open>operator<<(std::ostream&, const Prefixer&)\<close>. Each block of the function is a
  step on the pair of the text written so far and the counter \<^verbatim>\<open>cnt\<close>.
\<close>

definition file_block :: "config \<Rightarrow> platform \<Rightarrow> Prefixer \<Rightarrow> string \<times> nat \<Rightarrow> string \<times> nat" where
  "file_block s pf p st =
     (case st of (os, cnt) \<Rightarrow>
        if prefix_and (curPrefixes s) FILE \<noteq> NONE
        then (os @ file_name (sep pf) (m_file_path p), cnt + 1)
        else (os, cnt))"

definition line_block :: "config \<Rightarrow> Prefixer \<Rightarrow> string \<times> nat \<Rightarrow> string \<times> nat" where
  "line_block s p st =
     (case st of (os, cnt) \<Rightarrow>
        if prefix_and (curPrefixes s) LINE \<noteq> NONE
        then (os @ (if cnt = 0 then ''Line: '' else '':'') @ show_int (m_file_line p), cnt + 1)
        else (os, cnt))"

definition function_block :: "config \<Rightarrow> Prefixer \<Rightarrow> string \<times> nat \<Rightarrow> string \<times> nat" where
  "function_block s p st =
     (case st of (os, cnt) \<Rightarrow>
        if prefix_and (curPrefixes s) FUNCTION \<noteq> NONE
        then (os @ (if cnt \<noteq> 0 then '', '' else []) @ m_func p @ ''()'', cnt + 1)
        else (os, cnt))"

definition time_block :: "config \<Rightarrow> platform \<Rightarrow> string \<times> nat \<Rightarrow> string \<times> nat" where
  "time_block s pf st =
     (case st of (os, cnt) \<Rightarrow>
        if prefix_and (curPrefixes s) TIME \<noteq> NONE
        then (case localtime pf of
                Some local \<Rightarrow>
                  (os @ (if cnt \<noteq> 0 then '', '' else []) @ put_time local @ ''.''
                      @ setw3 (ms pf), cnt + 1)
              | None \<Rightarrow> (os, cnt))
        else (os, cnt))"

definition thread_block :: "config \<Rightarrow> platform \<Rightarrow> string \<times> nat \<Rightarrow> string \<times> nat" where
  "thread_block s pf st =
     (case st of (os, cnt) \<Rightarrow>
        if prefix_and (curPrefixes s) THREAD \<noteq> NONE
        then (os @ (if cnt \<noteq> 0 then '', '' else []) @ ''TID: '' @ thread_id pf, cnt + 1)
        else (os, cnt))"

definition final_separator :: "string \<times> nat \<Rightarrow> string" where
  "final_separator st = (case st of (os, cnt) \<Rightarrow> if cnt \<noteq> 0 then os @ '': '' else os)"

definition Prefixer_out :: "config \<Rightarrow> platform \<Rightarrow> Prefixer \<Rightarrow> string" where
  "Prefixer_out s pf p =
     final_separator
       (thread_block s pf
         (time_block s pf
           (function_block s p
             (line_block s p
               (file_block s pf p ([], 0))))))"

section \<open>Value formatter\<close>

text \<open>
  \<^verbatim>\<open>stringify(T& t)\<close> deduces \<open>T\<close> from the lvalue it is given, and the overload of
  \<^verbatim>\<open>operator<<\<close> for \<^verbatim>\<open>Stringifier<T>\<close> is chosen on that \<open>T\<close>. The
  specialisations are declared for the unqualified types \<^verbatim>\<open>bool\<close>, \<^verbatim>\<open>char\<close>,
  \<^verbatim>\<open>unsigned char\<close>, \<^verbatim>\<open>signed char\<close>, \<^verbatim>\<open>char*\<close>, \<^verbatim>\<open>const char*\<close>,
  \<^verbatim>\<open>std::string\<close> and for the containers; every other \<open>T\<close>, and so every
  const-qualified \<open>T\<close>, takes the general overload \<^verbatim>\<open>os << s.get_t()\<close>.

  A \<open>scalar\<close> is a value that the stream itself can write. \<open>SCharArray\<close> is an
  array of characters (\<^verbatim>\<open>char buf[4]\<close>, a string literal), which the stream writes up
  to its terminating zero; \<open>SInt\<close> stands for the built-in integer types, \<open>SOther\<close>
  for any other type with a stream \<^verbatim>\<open>operator<<\<close> of its own and carries the text that
  operator writes.
\<close>

datatype scalar =
    SBool bool
  | SChar char
  | SUChar char
  | SSChar char
  | SCharPtr string
  | SConstCharPtr string
  | SString string
  | SCharArray string
  | SInt int
  | SOther string

text \<open>
  A \<open>val\<close> is an object of unqualified type. An \<open>lval\<close> is what \<^verbatim>\<open>stringify\<close>
  receives: an lvalue of type \<open>T\<close> (\<open>Plain\<close>) or of type \<^verbatim>\<open>const T\<close> (\<open>Const\<close>).
  A program that hands a const-qualified container to \<^verbatim>\<open>stringify\<close> is rejected by
  the compiler, the stream having no \<^verbatim>\<open>operator<<\<close> for it, so \<open>Const\<close> holds a
  scalar.

  Containers are given by what the code reads of them, in iteration order:
  \<^item> \<open>Seq\<close>: \<^verbatim>\<open>std::array\<close>, \<^verbatim>\<open>vector\<close>, \<^verbatim>\<open>deque\<close>, \<^verbatim>\<open>forward_list\<close>,
    \<^verbatim>\<open>list\<close>; \<^verbatim>\<open>*it\<close> has the element type, which \<^verbatim>\<open>std::array\<close> allows to be
    const;
  \<^item> \<open>SetC\<close>: \<^verbatim>\<open>set\<close>, \<^verbatim>\<open>multiset\<close>, \<^verbatim>\<open>unordered_set\<close>,
    \<^verbatim>\<open>unordered_multiset\<close>; \<^verbatim>\<open>*it\<close> is a const lvalue;
  \<^item> \<open>MapC\<close>: \<^verbatim>\<open>map\<close>, \<^verbatim>\<open>multimap\<close>, \<^verbatim>\<open>unordered_map\<close>,
    \<^verbatim>\<open>unordered_multimap\<close>; \<^verbatim>\<open>it->first\<close> is a const lvalue, \<^verbatim>\<open>it->second\<close>
    has the mapped type;
  \<^item> \<open>Stack\<close>: \<^verbatim>\<open>std::stack\<close>, the top first; \<^verbatim>\<open>top()\<close> is a plain lvalue;
  \<^item> \<open>Queue\<close>: \<^verbatim>\<open>std::queue\<close>, the front first and the back last;
  \<^item> \<open>PriorityQueue\<close>: \<^verbatim>\<open>std::priority_queue\<close>, the top first; \<^verbatim>\<open>top()\<close> is a
    const lvalue.
\<close>

datatype val =
    Scalar scalar
  | Seq "lval list"
  | SetC "scalar list"
  | MapC "(scalar \<times> lval) list"
  | Stack "val list"
  | Queue "val list"
  | PriorityQueue "scalar list"
and lval =
    Plain val
  | Const scalar

text \<open>The stream's own \<^verbatim>\<open>operator<<\<close>, which the general overload calls.\<close>

fun stream_out :: "scalar \<Rightarrow> string" where
  "stream_out (SBool b) = (if b then ''1'' else ''0'')"
| "stream_out (SChar c) = [c]"
| "stream_out (SUChar c) = [c]"
| "stream_out (SSChar c) = [c]"
| "stream_out (SCharPtr t) = t"
| "stream_out (SConstCharPtr t) = t"
| "stream_out (SString t) = t"
| "stream_out (SCharArray t) = t"
| "stream_out (SInt i) = show_int i"
| "stream_out (SOther t) = t"

text \<open>The overloads for \<^verbatim>\<open>Stringifier<T>\<close> with \<open>T\<close> an unqualified scalar type.\<close>

fun scalar_out :: "scalar \<Rightarrow> string" where
  "scalar_out (SBool b) = (if b then ''true'' else ''false'')"
| "scalar_out (SChar c) = [CHR 0x27] @ [c] @ [CHR 0x27]"
| "scalar_out (SUChar c) = [CHR 0x27] @ [c] @ [CHR 0x27]"
| "scalar_out (SSChar c) = [CHR 0x27] @ [c] @ [CHR 0x27]"
| "scalar_out (SCharPtr t) = [CHR 0x22] @ t @ [CHR 0x22]"
| "scalar_out (SConstCharPtr t) = [CHR 0x22] @ t @ [CHR 0x22]"
| "scalar_out (SString t) = [CHR 0x22] @ t @ [CHR 0x22]"
| "scalar_out (SCharArray t) = stream_out (SCharArray t)"
| "scalar_out (SInt i) = stream_out (SInt i)"
| "scalar_out (SOther t) = stream_out (SOther t)"

text \<open>
  \<^verbatim>\<open>Stringifier<T>::sequence\<close> and \<^verbatim>\<open>Stringifier<T>::map\<close>, on the texts that
  \<^verbatim>\<open>stringify\<close> gives for the elements: the first without a comma, then the rest.
\<close>

definition sequence :: "string list \<Rightarrow> string" where
  "sequence es =
     ''{''
     @ (case es of [] \<Rightarrow> [] | e # rest \<Rightarrow> e @ concat (map (\<lambda>x. '', '' @ x) rest))
     @ ''}''"

definition map_out :: "(string \<times> string) list \<Rightarrow> string" where
  "map_out es =
     ''{''
     @ (case es of
          [] \<Rightarrow> []
        | (k, v) # rest \<Rightarrow>
            k @ '': '' @ v @ concat (map (\<lambda>(k', v'). '', '' @ k' @ '': '' @ v') rest))
     @ ''}''"

text \<open>
  The dispatch. \<^verbatim>\<open>Stringifier<T>::stack\<close> and \<^verbatim>\<open>Stringifier<T>::queue\<close> branch on
  \<^verbatim>\<open>size()\<close> and read \<^verbatim>\<open>top()\<close>, \<^verbatim>\<open>front()\<close> and \<^verbatim>\<open>back()\<close> only.
\<close>

function stringify :: "lval \<Rightarrow> string"
  and stringify_val :: "val \<Rightarrow> string" where
  "stringify (Plain v) = stringify_val v"
| "stringify (Const c) = stream_out c"
| "stringify_val (Scalar c) = scalar_out c"
| "stringify_val (Seq es) = sequence (map stringify es)"
| "stringify_val (SetC es) = sequence (map (\<lambda>e. stringify (Const e)) es)"
| "stringify_val (MapC es) =
     map_out (map (\<lambda>(k, v). (stringify (Const k), stringify v)) es)"
| "stringify_val (Stack es) =
     ''{''
     @ (if length es = 1 then stringify_val (hd es)
        else if length es \<noteq> 0 then stringify_val (hd es) @ '', ...''
        else [])
     @ ''}''"
| "stringify_val (Queue es) =
     ''{''
     @ (if length es = 1 then stringify_val (hd es)
        else if length es = 2 then stringify_val (hd es) @ '', '' @ stringify_val (last es)
        else if length es \<noteq> 0
          then stringify_val (hd es) @ '', ..., '' @ stringify_val (last es)
        else [])
     @ ''}''"
| "stringify_val (PriorityQueue es) =
     ''{''
     @ (if length es = 1 then stringify (Const (hd es))
        else if length es \<noteq> 0 then stringify (Const (hd es)) @ '', ...''
        else [])
     @ ''}''"
  by pat_completeness auto
termination
proof -
  have elem: "size x \<le> size_list size es" if "x \<in> set es" for x :: lval and es
    using that by (simp add: size_list_estimation')
  have pair: "size y \<le> size_list (size_prod (\<lambda>_. 0) size) es"
    if "(k, y) \<in> set es" for k :: scalar and y :: lval and es
    using that by (auto intro!: size_list_estimation'[where x = "(k, y)"])
  have first: "size (hd es) \<le> size_list size es" if "length es \<noteq> 0" for es :: "val list"
    using that by (intro size_list_estimation'[where x = "hd es"]) simp_all
  have final: "size (last es) \<le> size_list size es" if "length es \<noteq> 0" for es :: "val list"
    using that by (intro size_list_estimation'[where x = "last es"]) simp_all
  show ?thesis
  proof (relation "measure (\<lambda>x. case x of Inl l \<Rightarrow> 2 * size l | Inr v \<Rightarrow> 2 * size v + 1)",
      goal_cases)
    case 1
    show ?case by simp
  next
    case (2 v)
    show ?case by simp
  next
    case (3 es x)
    with elem[of x es] show ?case by simp
  next
    case (4 es x)
    show ?case by simp
  next
    case (5 es x xa y)
    show ?case by simp
  next
    case (6 es x xa y)
    with pair[of xa y es] show ?case by auto
  next
    case (7 es)
    with first[of es] show ?case by simp
  next
    case (8 es)
    with first[of es] show ?case by simp
  next
    case (9 es)
    with first[of es] show ?case by simp
  next
    case (10 es)
    with first[of es] show ?case by simp
  next
    case (11 es)
    with final[of es] show ?case by simp
  next
    case (12 es)
    with first[of es] show ?case by simp
  next
    case (13 es)
    with final[of es] show ?case by simp
  next
    case (14 es)
    show ?case by simp
  next
    case (15 es)
    show ?case by simp
  qed
qed

section \<open>Record builders\<close>

text \<open>
  What one expansion of \<^verbatim>\<open>l\<close>, \<^verbatim>\<open>l_arr\<close> or \<^verbatim>\<open>l_mat\<close> does: the
  \<^verbatim>\<open>Prefixer\<close> objects it constructs, and the text it writes to \<^verbatim>\<open>std::cout\<close>.
  Two things can keep an expansion from having a defined effect: the compiler rejects
  it (no \<^verbatim>\<open>GL_INTERNAL_L\<close>\<open>k\<close> for the number of arguments), or it reads outside the
  array it was given, which the documentation leaves undefined.
\<close>

record emission =
  constructed :: "Prefixer list"
  written :: string

datatype failure = Rejected | Undefined

text \<open>
  \<^verbatim>\<open>GL_INTERNAL_LX(v)\<close>: \<open>fst a\<close> is the string \<^verbatim>\<open>#v\<close> and \<open>snd a\<close> the lvalue
  \<^verbatim>\<open>(v)\<close>. The parameter \<open>v\<close> holds the tokens that \<^verbatim>\<open>l\<close> and
  \<^verbatim>\<open>GL_INTERNAL_L\<close>\<open>k\<close> hand down, see \<open>l\<close> below.
\<close>

definition GL_INTERNAL_LX :: "config \<Rightarrow> string \<times> lval \<Rightarrow> string" where
  "GL_INTERNAL_LX s a = type_name s @ fst a @ '' = '' @ stringify (snd a)"

text \<open>
  \<^verbatim>\<open>GL_INTERNAL_L1\<close> to \<^verbatim>\<open>GL_INTERNAL_L16\<close>: the macro for \<open>k + 1\<close> arguments is
  the macro for the first \<open>k\<close>, then \<^verbatim>\<open>", "\<close>, then \<^verbatim>\<open>GL_INTERNAL_LX\<close> of the last.
\<close>

function GL_INTERNAL_L :: "config \<Rightarrow> (string \<times> lval) list \<Rightarrow> string" where
  "GL_INTERNAL_L s args =
     (if length args \<le> 1 then concat (map (GL_INTERNAL_LX s) args)
      else GL_INTERNAL_L s (butlast args) @ '', '' @ GL_INTERNAL_LX s (last args))"
  by pat_completeness auto
termination
  by (relation "measure (\<lambda>(s, args). length args)") auto

text \<open>\<^verbatim>\<open>GL_INTERNAL_L_DISPATCH\<close> selects the macro by the number of arguments, 1 to 16.\<close>

definition GL_INTERNAL_L_DISPATCH :: "config \<Rightarrow> (string \<times> lval) list \<Rightarrow> failure + string" where
  "GL_INTERNAL_L_DISPATCH s args =
     (if 1 \<le> length args \<and> length args \<le> 16 then Inr (GL_INTERNAL_L s args)
      else Inl Rejected)"

text \<open>
  The preprocessor at a call site. In \<^verbatim>\<open>l\<close> the arguments are \<^verbatim>\<open>__VA_ARGS__\<close>, passed
  on to \<^verbatim>\<open>GL_INTERNAL_L_DISPATCH\<close> and to \<^verbatim>\<open>GL_INTERNAL_L\<close>\<open>k\<close>; they are not
  operands of \<^verbatim>\<open>#\<close> there, so they are macro-replaced before
  \<^verbatim>\<open>GL_INTERNAL_LX\<close> applies \<^verbatim>\<open>#\<close> to them. A \<open>preprocessor\<close> maps the text of an
  argument as it is written at the call site to the string that \<^verbatim>\<open>#\<close> makes of it
  after that replacement: the names of the macros defined there replaced, and the white
  space between tokens reduced to one space.
\<close>

type_synonym preprocessor = "string \<Rightarrow> string"

text \<open>
  The macro \<^verbatim>\<open>l\<close>, expanded in file \<open>file\<close> at line \<open>line\<close> of function \<open>func\<close>.
  An argument is the pair of its text at the call site and the lvalue it denotes.
  The \<^verbatim>\<open>Prefixer\<close> temporary is inside the \<^verbatim>\<open>if\<close>.
\<close>

definition l :: "config \<Rightarrow> platform \<Rightarrow> preprocessor \<Rightarrow> string \<Rightarrow> int \<Rightarrow> string
    \<Rightarrow> (string \<times> lval) list \<Rightarrow> failure + emission" where
  "l s pf replaced file line func args =
     (case GL_INTERNAL_L_DISPATCH s (map (\<lambda>a. (replaced (fst a), snd a)) args) of
        Inl e \<Rightarrow> Inl e
      | Inr body \<Rightarrow>
          if outputEnabled s
          then (let p = \<lparr>m_file_path = file, m_file_line = line, m_func = func\<rparr>
                in Inr \<lparr>constructed = [p],
                        written = color_start s @ Prefixer_out s pf p @ body @ color_end s
                                 @ GL_NEWLINE\<rparr>)
          else Inr \<lparr>constructed = [], written = []\<rparr>)"

text \<open>
  \<^verbatim>\<open>operator<<(std::ostream&, const Array<U>&)\<close>. \<open>vals\<close> holds the allocated
  elements; \<open>len\<close> is the length the caller states.
\<close>

definition Array_out :: "config \<Rightarrow> platform \<Rightarrow> string \<Rightarrow> lval list \<Rightarrow> nat \<Rightarrow> Prefixer
    \<Rightarrow> failure + string" where
  "Array_out s pf name vals len p =
     (if outputEnabled s
      then (if len \<le> length vals
            then Inr (color_start s @ Prefixer_out s pf p @ type_name s @ name @ '' = {''
                      @ (if len > 0 then stringify (vals ! 0) else [])
                      @ concat (map (\<lambda>i. '', '' @ stringify (vals ! i)) [1..<len])
                      @ ''}'' @ color_end s @ GL_NEWLINE)
            else Inl Undefined)
      else Inr [])"

text \<open>
  The macro \<^verbatim>\<open>l_arr\<close>: the \<^verbatim>\<open>Prefixer\<close> temporary is an argument of
  \<^verbatim>\<open>make_array\<close>. \<open>name\<close> is \<^verbatim>\<open>#v\<close>; here \<open>v\<close> is a parameter of the macro
  that applies \<^verbatim>\<open>#\<close>, so the argument is not macro-replaced. The same holds of
  \<^verbatim>\<open>l_mat\<close>.
\<close>

definition l_arr :: "config \<Rightarrow> platform \<Rightarrow> string \<Rightarrow> int \<Rightarrow> string \<Rightarrow> string \<Rightarrow> lval list \<Rightarrow> nat
    \<Rightarrow> failure + emission" where
  "l_arr s pf file line func name vals len =
     (let p = \<lparr>m_file_path = file, m_file_line = line, m_func = func\<rparr>
      in case Array_out s pf name vals len p of
           Inl e \<Rightarrow> Inl e
         | Inr t \<Rightarrow> Inr \<lparr>constructed = [p], written = t\<rparr>)"

text \<open>
  \<^verbatim>\<open>operator<<(std::ostream&, const Matrix<U>&)\<close>. \<open>vals\<close> holds the allocated
  rows, \<open>vals ! i ! j\<close> being \<^verbatim>\<open>m[i][j]\<close>.
\<close>

definition Matrix_out :: "config \<Rightarrow> platform \<Rightarrow> string \<Rightarrow> lval list list \<Rightarrow> nat \<Rightarrow> nat
    \<Rightarrow> Prefixer \<Rightarrow> failure + string" where
  "Matrix_out s pf name vals cols rows p =
     (if outputEnabled s
      then (if cols \<le> 0 \<or> rows \<le> 0
            then Inr (color_start s @ Prefixer_out s pf p @ type_name s @ name @ '': ''
                      @ ''{}'' @ color_end s @ GL_NEWLINE)
            else if rows \<le> length vals \<and> list_all (\<lambda>r. cols \<le> length r) (take rows vals)
            then Inr (color_start s @ Prefixer_out s pf p @ type_name s @ name @ '': ''
                      @ ''[0,0] = '' @ stringify (vals ! 0 ! 0)
                      @ concat (map (\<lambda>j. '', '' @ ''[0,'' @ show_nat j @ ''] = ''
                                           @ stringify (vals ! 0 ! j)) [1..<cols])
                      @ concat (map (\<lambda>i.
                          concat (map (\<lambda>j. '', '' @ ''['' @ show_nat i @ '','' @ show_nat j
                                               @ ''] = '' @ stringify (vals ! i ! j))
                                    [0..<cols]))
                          [1..<rows])
                      @ color_end s @ GL_NEWLINE)
            else Inl Undefined)
      else Inr [])"

definition l_mat :: "config \<Rightarrow> platform \<Rightarrow> string \<Rightarrow> int \<Rightarrow> string \<Rightarrow> string \<Rightarrow> lval list list
    \<Rightarrow> nat \<Rightarrow> nat \<Rightarrow> failure + emission" where
  "l_mat s pf file line func name vals cols rows =
     (let p = \<lparr>m_file_path = file, m_file_line = line, m_func = func\<rparr>
      in case Matrix_out s pf name vals cols rows p of
           Inl e \<Rightarrow> Inl e
         | Inr t \<Rightarrow> Inr \<lparr>constructed = [p], written = t\<rparr>)"

section \<open>Renderings in the words of the specification\<close>

text \<open>
  A list of texts laid out with a separator between neighbours: the items and the
  separators are the pieces at the top level, whatever the items contain.
\<close>

datatype piece = Item string | Separator

fun pieces :: "string list \<Rightarrow> piece list" where
  "pieces [] = []"
| "pieces [x] = [Item x]"
| "pieces (x # y # ys) = Item x # Separator # pieces (y # ys)"

fun piece_text :: "string \<Rightarrow> piece \<Rightarrow> string" where
  "piece_text sp (Item x) = x"
| "piece_text sp Separator = sp"

definition join :: "string \<Rightarrow> string list \<Rightarrow> string" where
  "join sp xs = concat (map (piece_text sp) (pieces xs))"

text \<open>The five fields of the prefix, in the order of the specification.\<close>

datatype field = File | Line | Function | Time | Thread

fun flag :: "field \<Rightarrow> prefix" where
  "flag File = FILE"
| "flag Line = LINE"
| "flag Function = FUNCTION"
| "flag Time = TIME"
| "flag Thread = THREAD"

text \<open>The fields whose flags are in the mask \<open>m\<close>.\<close>

definition enabled_fields :: "prefix \<Rightarrow> field list" where
  "enabled_fields m =
     filter (\<lambda>k. prefix_and m (flag k) \<noteq> NONE) [File, Line, Function, Time, Thread]"

text \<open>Of those, the fields that have a value: \<open>Time\<close> only when the conversion to
  local time succeeded.\<close>

definition produced_fields :: "prefix \<Rightarrow> platform \<Rightarrow> field list" where
  "produced_fields m pf =
     filter (\<lambda>k. k = Time \<longrightarrow> localtime pf \<noteq> None) (enabled_fields m)"

fun field_text :: "platform \<Rightarrow> Prefixer \<Rightarrow> field \<Rightarrow> string" where
  "field_text pf p File = file_name (sep pf) (m_file_path p)"
| "field_text pf p Line = show_int (m_file_line p)"
| "field_text pf p Function = m_func p @ ''()''"
| "field_text pf p Time =
     (case localtime pf of Some local \<Rightarrow> put_time local @ ''.'' @ setw3 (ms pf) | None \<Rightarrow> [])"
| "field_text pf p Thread = ''TID: '' @ thread_id pf"

text \<open>What precedes a field, given the fields already written.\<close>

fun lead_in :: "field list \<Rightarrow> field \<Rightarrow> string" where
  "lead_in before File = []"
| "lead_in before Line = (if File \<in> set before then '':'' else ''Line: '')"
| "lead_in before k = (if before \<noteq> [] then '', '' else [])"

fun render_fields :: "platform \<Rightarrow> Prefixer \<Rightarrow> field list \<Rightarrow> field list \<Rightarrow> string" where
  "render_fields pf p before [] = []"
| "render_fields pf p before (k # ks) =
     lead_in before k @ field_text pf p k @ render_fields pf p (before @ [k]) ks"

definition prefix_of_fields :: "platform \<Rightarrow> Prefixer \<Rightarrow> field list \<Rightarrow> string" where
  "prefix_of_fields pf p ks = render_fields pf p [] ks @ (if ks = [] then [] else '': '')"

text \<open>One \<open>name = value\<close> pair of a scalar list.\<close>

definition pair_text :: "config \<Rightarrow> string \<times> lval \<Rightarrow> string" where
  "pair_text s a =
     (if prefix_and (curPrefixes s) TYPE_NAME \<noteq> NONE then ''type '' else [])
     @ fst a @ '' = '' @ stringify (snd a)"

text \<open>The entries of a matrix in row-major order, each as \<open>[i,j] = v\<close>.\<close>

definition matrix_entries :: "lval list list \<Rightarrow> nat \<Rightarrow> nat \<Rightarrow> string list" where
  "matrix_entries vals cols rows =
     concat (map (\<lambda>i. map (\<lambda>j. ''['' @ show_nat i @ '','' @ show_nat j @ ''] = ''
                                   @ stringify (vals ! i ! j)) [0..<cols]) [0..<rows])"

fun items :: "piece list \<Rightarrow> string list" where
  "items [] = []"
| "items (Item x # ps) = x # items ps"
| "items (Separator # ps) = items ps"

section \<open>Example inputs\<close>

definition posix :: platform where
  "posix = \<lparr>sep = CHR ''/'', localtime = Some \<lparr>tm_hour = 10, tm_min = 2, tm_sec = 13\<rparr>,
            ms = 57, thread_id = ''12''\<rparr>"

definition no_local_time :: platform where
  "no_local_time = \<lparr>sep = CHR ''/'', localtime = None, ms = 57, thread_id = ''12''\<rparr>"

definition disabled_config :: config where
  "disabled_config =
     \<lparr>curPrefixes = prefix_or FILE LINE, outputEnabled = False, colorEnabled = True\<rparr>"

definition int_cell :: "int \<Rightarrow> lval" where
  "int_cell i = Plain (Scalar (SInt i))"

text \<open>A call site with no macro defined, the arguments written with single spaces.\<close>

definition no_macros :: preprocessor where
  "no_macros t = t"

text \<open>A call site after \<^verbatim>\<open>#define MX my_var\<close>, for an argument that is one identifier.\<close>

definition MX_defined :: preprocessor where
  "MX_defined t = (if t = ''MX'' then ''my_var'' else t)"

section \<open>Lists with separators\<close>

declare show_nat.simps [simp del]
declare GL_INTERNAL_L.simps [simp del]

lemma join_simps [simp]:
  "join sp [] = []"
  "join sp [x] = x"
  "join sp (x # y # ys) = x @ sp @ join sp (y # ys)"
  by (simp_all add: join_def)

lemma join_Cons: "join sp (x # xs) = x @ concat (map (\<lambda>y. sp @ y) xs)"
  by (induction xs arbitrary: x) simp_all

lemma join_snoc: "xs \<noteq> [] \<Longrightarrow> join sp (xs @ [x]) = join sp xs @ sp @ x"
  by (induction xs rule: pieces.induct) simp_all

lemma first_then_rest:
  "(case es of [] \<Rightarrow> [] | e # rest \<Rightarrow> e @ concat (map (\<lambda>x. sp @ x) rest)) = join sp es"
  by (cases es) (simp_all add: join_Cons)

lemma pieces_separators: "count_list (pieces xs) Separator = length xs - 1"
  by (induction xs rule: pieces.induct) simp_all

lemma pieces_items: "items (pieces xs) = xs"
  by (induction xs rule: pieces.induct) simp_all

lemma concat_map_concat:
  "concat (map f (concat xss)) = concat (map (\<lambda>xs. concat (map f xs)) xss)"
  by (induction xss) simp_all

lemma map_nth_take:
  "n \<le> length xs \<Longrightarrow> map (\<lambda>i. f (xs ! i)) [0..<n] = map f (take n xs)"
  by (induction n) (simp_all add: take_Suc_conv_app_nth)

lemma map_nth_tail:
  "map (\<lambda>i. f ((x # xs) ! i)) [1..<Suc n] = map (\<lambda>i. f (xs ! i)) [0..<n]"
proof -
  have "[1..<Suc n] = map Suc [0..<n]"
    by (simp add: map_Suc_upt)
  then show ?thesis
    by (simp add: comp_def)
qed

section \<open>The file name\<close>

declare sep_loop.simps [simp del]

lemma size_dec_0: "size_dec 0 = SIZE_MAX"
  by (simp add: size_dec_def SIZE_MAX_def)

lemma size_dec_Suc: "Suc i \<le> SIZE_MAX \<Longrightarrow> size_dec (Suc i) = i"
  by (simp add: size_dec_def SIZE_MAX_def)

lemma sep_loop_max: "sep_loop c path SIZE_MAX = SIZE_MAX"
  by (simp add: sep_loop.simps)

lemma SIZE_MAX_pos: "0 < SIZE_MAX"
  by (simp add: SIZE_MAX_def)

lemma sep_loop_scan:
  assumes "i < length path" and "length path \<le> SIZE_MAX"
  shows "(sep_loop c path i = SIZE_MAX \<or> sep_loop c path i \<le> i)
         \<and> (if sep_loop c path i = SIZE_MAX then take (Suc i) path
              else drop (sep_loop c path i + 1) (take (Suc i) path))
           = rev (takeWhile (\<lambda>x. x \<noteq> c) (rev (take (Suc i) path)))"
  using assms
proof (induction i)
  case 0
  then have "take (Suc 0) path = [path ! 0]"
    by (cases path) simp_all
  moreover have "sep_loop c path 0 = (if path ! 0 = c then 0 else SIZE_MAX)"
    using SIZE_MAX_pos by (subst sep_loop.simps) (simp add: size_dec_0 sep_loop_max)
  ultimately show ?case
    using SIZE_MAX_pos by simp
next
  case (Suc i)
  let ?x = "path ! Suc i"
  from Suc.prems have ne: "Suc i \<noteq> SIZE_MAX" and le: "Suc i \<le> SIZE_MAX"
    by simp_all
  have tk: "take (Suc (Suc i)) path = take (Suc i) path @ [?x]"
    using Suc.prems by (simp add: take_Suc_conv_app_nth)
  have len: "length (take (Suc i) path) = Suc i"
    using Suc.prems by simp
  have step: "sep_loop c path (Suc i) = (if ?x = c then Suc i else sep_loop c path i)"
    using ne le by (subst sep_loop.simps) (simp add: size_dec_Suc)
  show ?case
  proof (cases "?x = c")
    case True
    with step ne len show ?thesis
      by (simp add: tk)
  next
    case False
    from Suc.IH Suc.prems
    have ih1: "sep_loop c path i = SIZE_MAX \<or> sep_loop c path i \<le> i"
      and ih2: "(if sep_loop c path i = SIZE_MAX then take (Suc i) path
              else drop (sep_loop c path i + 1) (take (Suc i) path))
           = rev (takeWhile (\<lambda>x. x \<noteq> c) (rev (take (Suc i) path)))"
      by simp_all
    show ?thesis
    proof (cases "sep_loop c path i = SIZE_MAX")
      case True
      with False step ih2 show ?thesis
        by (simp add: tk)
    next
      case ne': False
      with ih1 have "sep_loop c path i \<le> i" by simp
      with False step ih2 ne' len show ?thesis
        by (simp add: tk)
    qed
  qed
qed

lemma file_name_takeWhile:
  assumes "length path \<le> SIZE_MAX"
  shows "file_name c path = rev (takeWhile (\<lambda>x. x \<noteq> c) (rev path))"
proof (cases "path = []")
  case True
  then show ?thesis
    by (simp add: file_name_def size_dec_0 sep_loop_max)
next
  case False
  define i where "i = length path - 1"
  from False have i: "length path = Suc i" "i < length path"
    by (simp_all add: i_def)
  then have dec: "size_dec (length path) = i"
    using assms by (simp add: size_dec_Suc)
  have whole: "take (Suc i) path = path"
    using i by simp
  from sep_loop_scan[OF i(2) assms, of c]
  have "(if sep_loop c path i = SIZE_MAX then path else drop (sep_loop c path i + 1) path)
        = rev (takeWhile (\<lambda>x. x \<noteq> c) (rev path))"
    unfolding whole by simp
  then show ?thesis
    by (auto simp: file_name_def Let_def dec split: if_splits)
qed

lemma file_name_no_sep:
  "length path \<le> SIZE_MAX \<Longrightarrow> c \<notin> set (file_name c path)"
  by (auto simp: file_name_takeWhile dest: set_takeWhileD)

lemma file_name_verbatim:
  "length path \<le> SIZE_MAX \<Longrightarrow> c \<notin> set path \<Longrightarrow> file_name c path = path"
proof -
  assume len: "length path \<le> SIZE_MAX" and "c \<notin> set path"
  then have "\<forall>x\<in>set (rev path). x \<noteq> c"
    by auto
  then have "takeWhile (\<lambda>x. x \<noteq> c) (rev path) = rev path"
    by (rule takeWhile_eq_all_conv[THEN iffD2])
  then show ?thesis
    by (simp only: file_name_takeWhile[OF len] rev_rev_ident)
qed

lemma file_name_after_last:
  assumes "length path \<le> SIZE_MAX" and "c \<in> set path"
  shows "\<exists>before. path = before @ c # file_name c path"
proof -
  from assms(2) have "c \<in> set (rev path)" by simp
  then have "dropWhile (\<lambda>x. x \<noteq> c) (rev path) \<noteq> []"
    by (auto simp: dropWhile_eq_Nil_conv)
  moreover have "hd (dropWhile (\<lambda>x. x \<noteq> c) (rev path)) = c"
    using calculation hd_dropWhile[of "\<lambda>x. x \<noteq> c" "rev path"] by simp
  ultimately obtain ds where ds: "dropWhile (\<lambda>x. x \<noteq> c) (rev path) = c # ds"
    by (cases "dropWhile (\<lambda>x. x \<noteq> c) (rev path)") auto
  have "rev path = takeWhile (\<lambda>x. x \<noteq> c) (rev path) @ dropWhile (\<lambda>x. x \<noteq> c) (rev path)"
    by simp
  then have "path = rev (dropWhile (\<lambda>x. x \<noteq> c) (rev path))
                    @ rev (takeWhile (\<lambda>x. x \<noteq> c) (rev path))"
    by (metis rev_append rev_rev_ident)
  with ds assms(1) have "path = rev ds @ c # file_name c path"
    by (simp add: file_name_takeWhile)
  then show ?thesis ..
qed

section \<open>The prefix as a list of fields\<close>

lemma Prefixer_out_fields:
  "Prefixer_out s pf p = prefix_of_fields pf p (produced_fields (curPrefixes s) pf)"
  unfolding Prefixer_out_def prefix_of_fields_def produced_fields_def enabled_fields_def
    final_separator_def thread_block_def time_block_def function_block_def line_block_def
    file_block_def
  by (cases "prefix_and (curPrefixes s) FILE = NONE";
      cases "prefix_and (curPrefixes s) LINE = NONE";
      cases "prefix_and (curPrefixes s) FUNCTION = NONE";
      cases "prefix_and (curPrefixes s) TIME = NONE";
      cases "prefix_and (curPrefixes s) THREAD = NONE";
      cases "localtime pf")
     simp_all

lemma disjoint_flag: "t AND f = 0 \<Longrightarrow> (m XOR t) AND f = m AND f" for m t f :: prefix
  by (simp add: bit.conj_xor_distrib2)

lemma own_flag: "m AND 2 ^ k \<noteq> 0 \<Longrightarrow> (m XOR 2 ^ k) AND 2 ^ k = 0" for m :: prefix
proof -
  assume "m AND 2 ^ k \<noteq> 0"
  then have "bit m k"
    by (simp add: and_exp_eq_0_iff_not_bit)
  then show ?thesis
    by (intro bit_eqI) (auto simp: bit_simps)
qed

lemma time_cleared:
  assumes "prefix_and m TIME \<noteq> NONE"
  shows "prefix_and (prefix_xor m TIME) FILE = prefix_and m FILE"
    and "prefix_and (prefix_xor m TIME) LINE = prefix_and m LINE"
    and "prefix_and (prefix_xor m TIME) FUNCTION = prefix_and m FUNCTION"
    and "prefix_and (prefix_xor m TIME) THREAD = prefix_and m THREAD"
    and "prefix_and (prefix_xor m TIME) TYPE_NAME = prefix_and m TYPE_NAME"
    and "prefix_and (prefix_xor m TIME) TIME = NONE"
proof -
  show "prefix_and (prefix_xor m TIME) FILE = prefix_and m FILE"
    unfolding prefix_and_def prefix_xor_def by (rule disjoint_flag) (simp add: TIME_def FILE_def)
  show "prefix_and (prefix_xor m TIME) LINE = prefix_and m LINE"
    unfolding prefix_and_def prefix_xor_def by (rule disjoint_flag) (simp add: TIME_def LINE_def)
  show "prefix_and (prefix_xor m TIME) FUNCTION = prefix_and m FUNCTION"
    unfolding prefix_and_def prefix_xor_def
    by (rule disjoint_flag) (simp add: TIME_def FUNCTION_def)
  show "prefix_and (prefix_xor m TIME) THREAD = prefix_and m THREAD"
    unfolding prefix_and_def prefix_xor_def by (rule disjoint_flag) (simp add: TIME_def THREAD_def)
  show "prefix_and (prefix_xor m TIME) TYPE_NAME = prefix_and m TYPE_NAME"
    unfolding prefix_and_def prefix_xor_def
    by (rule disjoint_flag) (simp add: TIME_def TYPE_NAME_def)
  have "TIME = 2 ^ 3"
    by (simp add: TIME_def)
  with assms own_flag[of m 3] show "prefix_and (prefix_xor m TIME) TIME = NONE"
    by (simp add: prefix_and_def prefix_xor_def NONE_def)
qed

lemma Prefixer_out_time_failed:
  assumes "localtime pf = None" and "prefix_and (curPrefixes s) TIME \<noteq> NONE"
  shows "Prefixer_out s pf p
         = Prefixer_out (set_prefixes (prefix_xor (get_prefixes s) TIME) s) pf p"
  using assms
  by (simp add: Prefixer_out_def final_separator_def thread_block_def time_block_def
      function_block_def line_block_def file_block_def set_prefixes_def get_prefixes_def
      time_cleared)

section \<open>Containers\<close>

lemma sequence_join: "sequence es = ''{'' @ join '', '' es @ ''}''"
  unfolding sequence_def first_then_rest ..

lemma map_out_join:
  "map_out es = ''{'' @ join '', '' (map (\<lambda>(k, v). k @ '': '' @ v) es) @ ''}''"
proof (cases es)
  case Nil
  then show ?thesis by (simp add: map_out_def)
next
  case (Cons e rest)
  have "concat (map (\<lambda>(k', v'). '', '' @ k' @ '': '' @ v') rest)
        = concat (map (\<lambda>y. '', '' @ y) (map (\<lambda>(k, v). k @ '': '' @ v) rest))"
    by (induction rest) (simp_all add: case_prod_beta)
  with Cons show ?thesis
    by (cases e) (simp add: map_out_def join_Cons)
qed

text \<open>
  A sequence is its elements between braces, joined by \<open>", "\<close>; so is a set, but its
  elements reach \<^verbatim>\<open>stringify\<close> as const lvalues, and so do the keys of a map.
\<close>

lemma Seq_render:
  "stringify (Plain (Seq es)) = ''{'' @ join '', '' (map stringify es) @ ''}''"
  by (simp add: sequence_join)

lemma SetC_render:
  "stringify (Plain (SetC es)) = ''{'' @ join '', '' (map stream_out es) @ ''}''"
  by (simp add: sequence_join)

lemma MapC_render:
  "stringify (Plain (MapC es))
   = ''{'' @ join '', '' (map (\<lambda>(k, v). stream_out k @ '': '' @ stringify v) es) @ ''}''"
  by (simp add: map_out_join comp_def case_prod_unfold)

lemma empty_containers:
  "stringify (Plain (Seq [])) = ''{}''"
  "stringify (Plain (SetC [])) = ''{}''"
  "stringify (Plain (MapC [])) = ''{}''"
  by (simp_all add: sequence_def map_out_def)

section \<open>Bodies of the records\<close>

lemma GL_INTERNAL_LX_pair_text: "GL_INTERNAL_LX s a = pair_text s a"
  by (simp add: GL_INTERNAL_LX_def pair_text_def type_name_def)

lemma GL_INTERNAL_L_join:
  "args \<noteq> [] \<Longrightarrow> GL_INTERNAL_L s args = join '', '' (map (pair_text s) args)"
proof (induction args rule: rev_induct)
  case Nil
  then show ?case by simp
next
  case (snoc a args)
  show ?case
  proof (cases "args = []")
    case True
    then show ?thesis
      by (subst GL_INTERNAL_L.simps) (simp add: GL_INTERNAL_LX_pair_text)
  next
    case False
    then have "\<not> length (args @ [a]) \<le> 1"
      by (cases args) simp_all
    then have "GL_INTERNAL_L s (args @ [a])
               = GL_INTERNAL_L s args @ '', '' @ GL_INTERNAL_LX s a"
      by (subst GL_INTERNAL_L.simps) simp
    with False snoc.IH show ?thesis
      by (simp add: GL_INTERNAL_LX_pair_text join_snoc)
  qed
qed

lemma array_body:
  assumes "len \<le> length vals"
  shows "(if len > 0 then stringify (vals ! 0) else [])
         @ concat (map (\<lambda>i. '', '' @ stringify (vals ! i)) [1..<len])
         = join '', '' (map stringify (take len vals))"
proof (cases len)
  case 0
  then show ?thesis by simp
next
  case (Suc n)
  with assms obtain v rest where vals: "vals = v # rest"
    by (cases vals) auto
  from assms Suc vals have "n \<le> length rest"
    by simp
  then have "map (\<lambda>i. '', '' @ stringify (rest ! i)) [0..<n]
             = map (\<lambda>v. '', '' @ stringify v) (take n rest)"
    by (rule map_nth_take)
  moreover have "map (\<lambda>i. '', '' @ stringify ((v # rest) ! i)) [1..<Suc n]
             = map (\<lambda>i. '', '' @ stringify (rest ! i)) [0..<n]"
    by (rule map_nth_tail)
  ultimately have "map (\<lambda>i. '', '' @ stringify (vals ! i)) [1..<len]
        = map (\<lambda>y. '', '' @ y) (map stringify (take n rest))"
    by (simp only: vals Suc map_map comp_def)
  with Suc vals show ?thesis
    by (simp add: join_Cons)
qed

text \<open>
  An enabled array emission within the allocated length: the first \<open>len\<close> elements
  between braces, joined by \<open>", "\<close>.
\<close>

lemma array_record:
  assumes "outputEnabled s" and "len \<le> length vals"
  shows "l_arr s pf file line func name vals len
         = Inr \<lparr>constructed = [\<lparr>m_file_path = file, m_file_line = line, m_func = func\<rparr>],
                written = color_start s
                  @ Prefixer_out s pf \<lparr>m_file_path = file, m_file_line = line, m_func = func\<rparr>
                  @ type_name s @ name @ '' = {''
                  @ join '', '' (map stringify (take len vals))
                  @ ''}'' @ color_end s @ GL_NEWLINE\<rparr>"
proof -
  note body = array_body[OF assms(2)]
  from assms show ?thesis
    by (simp add: l_arr_def Array_out_def Let_def body[symmetric])
qed

lemma matrix_body:
  assumes "0 < cols" and "0 < rows"
  shows "''[0,0] = '' @ stringify (vals ! 0 ! 0)
         @ concat (map (\<lambda>j. '', '' @ ''[0,'' @ show_nat j @ ''] = ''
                              @ stringify (vals ! 0 ! j)) [1..<cols])
         @ concat (map (\<lambda>i.
             concat (map (\<lambda>j. '', '' @ ''['' @ show_nat i @ '','' @ show_nat j
                                  @ ''] = '' @ stringify (vals ! i ! j))
                       [0..<cols]))
             [1..<rows])
         = join '', '' (matrix_entries vals cols rows)"
proof -
  let ?e = "\<lambda>i j. ''['' @ show_nat i @ '','' @ show_nat j @ ''] = '' @ stringify (vals ! i ! j)"
  have zero: "show_nat 0 = ''0''"
    by (simp add: show_nat.simps digit_def)
  from assms have c: "[0..<cols] = 0 # [1..<cols]" and r: "[0..<rows] = 0 # [1..<rows]"
    by (simp_all add: upt_conv_Cons)
  have "matrix_entries vals cols rows
        = ?e 0 0 # map (?e 0) [1..<cols] @ concat (map (\<lambda>i. map (?e i) [0..<cols]) [1..<rows])"
    unfolding matrix_entries_def
    by (subst r, simp, subst c, simp)
  then have "join '', '' (matrix_entries vals cols rows)
        = ?e 0 0 @ concat (map (\<lambda>y. '', '' @ y) (map (?e 0) [1..<cols]))
          @ concat (map (\<lambda>y. '', '' @ y) (concat (map (\<lambda>i. map (?e i) [0..<cols]) [1..<rows])))"
    by (simp only: join_Cons map_append concat_append)
  also have "concat (map (\<lambda>y. '', '' @ y) (concat (map (\<lambda>i. map (?e i) [0..<cols]) [1..<rows])))
        = concat (map (\<lambda>i. concat (map (\<lambda>j. '', '' @ ?e i j) [0..<cols])) [1..<rows])"
    by (simp only: concat_map_concat map_map comp_def)
  finally show ?thesis
    by (simp add: zero comp_def)
qed

lemma mask_NONE_prefix:
  "curPrefixes s = NONE \<Longrightarrow> Prefixer_out s pf p = []"
  by (simp add: Prefixer_out_def final_separator_def thread_block_def time_block_def
      function_block_def line_block_def file_block_def prefix_and_def NONE_def)


section \<open>The example inputs\<close>

lemma initial_config_plain:
  "color_start initial_config = []" "color_end initial_config = []"
  "type_name initial_config = []" "outputEnabled initial_config"
  by (simp_all add: color_start_def color_end_def type_name_def initial_config_def
      prefix_and_def prefix_or_def NONE_def FILE_def LINE_def TYPE_NAME_def)

lemma initial_config_prefix:
  "Prefixer_out initial_config posix
     \<lparr>m_file_path = ''src/main.cpp'', m_file_line = 68, m_func = ''main''\<rparr>
   = ''main.cpp:68: ''"
  by (simp add: Prefixer_out_def final_separator_def thread_block_def time_block_def
      function_block_def line_block_def file_block_def initial_config_def posix_def
      prefix_and_def prefix_or_def NONE_def FILE_def LINE_def FUNCTION_def TIME_def
      THREAD_def file_name_def size_dec_def SIZE_MAX_def sep_loop.simps show_int_def
      show_nat.simps digit_def)

lemma two_by_two_entries:
  "matrix_entries [[int_cell 11, int_cell 12], [int_cell 21, int_cell 22]] 2 2
   = [''[0,0] = 11'', ''[0,1] = 12'', ''[1,0] = 21'', ''[1,1] = 22'']"
proof -
  have digits: "show_nat 0 = ''0''" "show_nat (Suc 0) = ''1''"
    by (simp_all add: show_nat.simps digit_def)
  have cells: "show_int 11 = ''11''" "show_int 12 = ''12''" "show_int 21 = ''21''"
    "show_int 22 = ''22''"
    by (simp_all add: show_int_def show_nat.simps digit_def)
  have range: "[0..<2] = [0, Suc 0]"
    by (simp add: upt_rec)
  show ?thesis
    by (simp add: matrix_entries_def range digits cells int_cell_def)
qed

section \<open>Output disabled\<close>

text \<open>
  C1. With \<^verbatim>\<open>outputEnabled\<close> false, a scalar-list emission (of any of the arities
  that compile), an array emission and a matrix emission each write the empty text,
  whatever the prefix mask, the colour setting and the arguments.
\<close>

theorem disabled_output_is_empty:
  assumes "\<not> outputEnabled s"
  shows "(1 \<le> length args \<and> length args \<le> 16
            \<longrightarrow> map_sum id written (l s pf replaced file line func args) = Inr [])
         \<and> map_sum id written (l_arr s pf file line func name vals len) = Inr []
         \<and> map_sum id written (l_mat s pf file line func name cells cols rows) = Inr []"
  using assms
  by (simp add: l_def GL_INTERNAL_L_DISPATCH_def l_arr_def Array_out_def l_mat_def
      Matrix_out_def)

text \<open>C1 at a disabled configuration with colour on and the default mask.\<close>

theorem disabled_output_is_empty_witness:
  "map_sum id written
     (l disabled_config posix no_macros ''src/main.cpp'' 68 ''main'' [(''i'', int_cell 1)])
     = Inr []
   \<and> map_sum id written
     (l_arr disabled_config posix ''src/main.cpp'' 68 ''main'' ''a''
        [int_cell 0, int_cell 1, int_cell 2] 3) = Inr []
   \<and> map_sum id written
     (l_mat disabled_config posix ''src/main.cpp'' 68 ''main'' ''m''
        [[int_cell 11, int_cell 12], [int_cell 21, int_cell 22]] 2 2) = Inr []"
proof -
  have off: "\<not> outputEnabled disabled_config"
    by (simp add: disabled_config_def)
  from disabled_output_is_empty[OF off, where args = "[(''i'', int_cell 1)]"]
  show ?thesis
    by simp
qed

section \<open>The prefix\<close>

text \<open>
  C2 as stated. With \<^verbatim>\<open>TIME\<close> as the mask and a failed conversion to local time the
  prefix is empty, although the flag of a field is in the mask: the prefix is not the
  rendering of the fields whose flags are set.
\<close>

theorem enabled_time_not_rendered:
  "enabled_fields TIME = [Time]
   \<and> Prefixer_out \<lparr>curPrefixes = TIME, outputEnabled = True, colorEnabled = False\<rparr>
        no_local_time \<lparr>m_file_path = ''src/main.cpp'', m_file_line = 68, m_func = ''main''\<rparr>
       = []
   \<and> Prefixer_out \<lparr>curPrefixes = TIME, outputEnabled = True, colorEnabled = False\<rparr>
        no_local_time \<lparr>m_file_path = ''src/main.cpp'', m_file_line = 68, m_func = ''main''\<rparr>
       \<noteq> prefix_of_fields no_local_time
            \<lparr>m_file_path = ''src/main.cpp'', m_file_line = 68, m_func = ''main''\<rparr>
            (enabled_fields TIME)"
  by (simp add: enabled_fields_def prefix_of_fields_def Prefixer_out_def final_separator_def
      thread_block_def time_block_def function_block_def line_block_def file_block_def
      no_local_time_def prefix_and_def NONE_def TIME_def FILE_def LINE_def FUNCTION_def
      THREAD_def)

text \<open>
  C2, amended. The prefix is the rendering, in the order \<^verbatim>\<open>FILE\<close>, \<^verbatim>\<open>LINE\<close>,
  \<^verbatim>\<open>FUNCTION\<close>, \<^verbatim>\<open>TIME\<close>, \<^verbatim>\<open>THREAD\<close>, of the fields whose flags are in the mask,
  \<^verbatim>\<open>TIME\<close> being among them only when the conversion to local time succeeded. The
  file field holds no separator; it is the whole path when the path holds none, and
  otherwise what follows a separator of the path. The line is led in by \<open>":"\<close> after a
  file field and by \<open>"Line: "\<close> otherwise (\<open>lead_in\<close>). The prefix is empty when no field
  was produced and ends with \<open>": "\<close> otherwise.
\<close>

theorem prefix_is_produced_fields:
  assumes "length (m_file_path p) \<le> SIZE_MAX"
  shows "Prefixer_out s pf p = prefix_of_fields pf p (produced_fields (curPrefixes s) pf)
         \<and> sep pf \<notin> set (file_name (sep pf) (m_file_path p))
         \<and> (sep pf \<notin> set (m_file_path p)
              \<longrightarrow> file_name (sep pf) (m_file_path p) = m_file_path p)
         \<and> (sep pf \<in> set (m_file_path p)
              \<longrightarrow> (\<exists>before. m_file_path p
                              = before @ sep pf # file_name (sep pf) (m_file_path p)))
         \<and> (produced_fields (curPrefixes s) pf = [] \<longrightarrow> Prefixer_out s pf p = [])
         \<and> (produced_fields (curPrefixes s) pf \<noteq> []
              \<longrightarrow> (\<exists>t. Prefixer_out s pf p = t @ '': ''))"
proof (intro conjI impI)
  show "Prefixer_out s pf p = prefix_of_fields pf p (produced_fields (curPrefixes s) pf)"
    by (rule Prefixer_out_fields)
  show "sep pf \<notin> set (file_name (sep pf) (m_file_path p))"
    using assms by (rule file_name_no_sep)
  show "file_name (sep pf) (m_file_path p) = m_file_path p"
    if "sep pf \<notin> set (m_file_path p)"
    using assms that by (rule file_name_verbatim)
  show "\<exists>before. m_file_path p = before @ sep pf # file_name (sep pf) (m_file_path p)"
    if "sep pf \<in> set (m_file_path p)"
    using assms that by (rule file_name_after_last)
  show "Prefixer_out s pf p = []" if "produced_fields (curPrefixes s) pf = []"
    using that by (simp add: Prefixer_out_fields prefix_of_fields_def)
  show "\<exists>t. Prefixer_out s pf p = t @ '': ''" if "produced_fields (curPrefixes s) pf \<noteq> []"
    using that by (simp add: Prefixer_out_fields prefix_of_fields_def)
qed

text \<open>
  C2, amended, for \<^verbatim>\<open>src/main.cpp\<close> at line 68 with the default mask, and for the
  path \<^verbatim>\<open>main.cpp\<close> with the mask \<^verbatim>\<open>TYPE_NAME\<close>.
\<close>

theorem prefix_is_produced_fields_witness:
  "length ''src/main.cpp'' \<le> SIZE_MAX
   \<and> Prefixer_out initial_config posix
         \<lparr>m_file_path = ''src/main.cpp'', m_file_line = 68, m_func = ''main''\<rparr>
       = ''main.cpp:68: ''
   \<and> CHR ''/'' \<notin> set (file_name (CHR ''/'') ''src/main.cpp'')
   \<and> (\<exists>before. ''src/main.cpp'' = before @ CHR ''/'' # file_name (CHR ''/'') ''src/main.cpp'')
   \<and> (\<exists>t. Prefixer_out initial_config posix
               \<lparr>m_file_path = ''src/main.cpp'', m_file_line = 68, m_func = ''main''\<rparr>
             = t @ '': '')
   \<and> file_name (CHR ''/'') ''main.cpp'' = ''main.cpp''
   \<and> Prefixer_out (set_prefixes TYPE_NAME initial_config) posix
         \<lparr>m_file_path = ''main.cpp'', m_file_line = 68, m_func = ''main''\<rparr>
       = []"
proof -
  let ?p = "\<lparr>m_file_path = ''src/main.cpp'', m_file_line = 68, m_func = ''main''\<rparr>"
  let ?q = "\<lparr>m_file_path = ''main.cpp'', m_file_line = 68, m_func = ''main''\<rparr>"
  let ?t = "set_prefixes TYPE_NAME initial_config"
  have len': "length ''src/main.cpp'' \<le> SIZE_MAX"
    by (simp add: SIZE_MAX_def)
  then have len: "length (m_file_path ?p) \<le> SIZE_MAX"
    by simp
  have short: "length (m_file_path ?q) \<le> SIZE_MAX"
    by (simp add: SIZE_MAX_def)
  have fields: "produced_fields (curPrefixes initial_config) posix = [File, Line]"
    by (simp add: produced_fields_def enabled_fields_def initial_config_def prefix_and_def
        prefix_or_def NONE_def FILE_def LINE_def FUNCTION_def TIME_def THREAD_def)
  have no_fields: "produced_fields (curPrefixes ?t) posix = []"
    by (simp add: produced_fields_def enabled_fields_def set_prefixes_def prefix_and_def
        NONE_def FILE_def LINE_def FUNCTION_def TIME_def THREAD_def TYPE_NAME_def)
  have name: "file_name (CHR ''/'') ''src/main.cpp'' = ''main.cpp''"
    by (simp add: file_name_def size_dec_def SIZE_MAX_def sep_loop.simps)
  have line: "show_int 68 = ''68''"
    by (simp add: show_int_def show_nat.simps digit_def)
  have slash: "sep posix = CHR ''/''"
    by (simp add: posix_def)
  note long = prefix_is_produced_fields[OF len, of initial_config posix, unfolded slash]
  note bare = prefix_is_produced_fields[OF short,
      of "set_prefixes TYPE_NAME initial_config" posix, unfolded slash]
  have "Prefixer_out initial_config posix ?p
        = prefix_of_fields posix ?p (produced_fields (curPrefixes initial_config) posix)"
    using long by (rule conjunct1)
  also have "\<dots> = ''main.cpp:68: ''"
    unfolding fields by (simp add: name line prefix_of_fields_def slash)
  finally have out: "Prefixer_out initial_config posix ?p = ''main.cpp:68: ''" .
  from long have clean: "CHR ''/'' \<notin> set (file_name (CHR ''/'') ''src/main.cpp'')"
    by simp
  from long have after: "\<exists>before. ''src/main.cpp''
        = before @ CHR ''/'' # file_name (CHR ''/'') ''src/main.cpp''"
    by simp
  from long have ends: "\<exists>t. Prefixer_out initial_config posix ?p = t @ '': ''"
    unfolding fields by blast
  from bare have whole: "file_name (CHR ''/'') ''main.cpp'' = ''main.cpp''"
    by simp
  from bare have nothing: "Prefixer_out ?t posix ?q = []"
    by (simp add: no_fields prefix_of_fields_def)
  show ?thesis
    by (intro conjI; fact)
qed

section \<open>A failed conversion to local time\<close>

text \<open>
  C8. When \<^verbatim>\<open>TIME\<close> is in the mask and the conversion to local time fails, the
  prefix is the one that the same mask without \<^verbatim>\<open>TIME\<close> gives: no time field, no
  separator for it, the same separators before the later fields, and the final
  \<open>": "\<close> only if another field was written. The decorator changes no state, so the
  next record is not affected.
\<close>

theorem failed_local_time_omits_time:
  assumes "localtime pf = None" and "prefix_and (curPrefixes s) TIME \<noteq> NONE"
  shows "Prefixer_out s pf p
           = Prefixer_out (set_prefixes (prefix_xor (get_prefixes s) TIME) s) pf p
         \<and> Prefixer_out s pf p
           = prefix_of_fields pf p (filter (\<lambda>k. k \<noteq> Time) (enabled_fields (curPrefixes s)))"
proof
  show "Prefixer_out s pf p
           = Prefixer_out (set_prefixes (prefix_xor (get_prefixes s) TIME) s) pf p"
    using assms by (rule Prefixer_out_time_failed)
  show "Prefixer_out s pf p
           = prefix_of_fields pf p (filter (\<lambda>k. k \<noteq> Time) (enabled_fields (curPrefixes s)))"
    using assms(1) by (simp add: Prefixer_out_fields produced_fields_def)
qed

text \<open>C8 for the mask \<^verbatim>\<open>FUNCTION | TIME | THREAD\<close>.\<close>

theorem failed_local_time_omits_time_witness:
  "localtime no_local_time = None
   \<and> prefix_and (prefix_or FUNCTION (prefix_or TIME THREAD)) TIME \<noteq> NONE
   \<and> Prefixer_out \<lparr>curPrefixes = prefix_or FUNCTION (prefix_or TIME THREAD),
                    outputEnabled = True, colorEnabled = False\<rparr>
        no_local_time \<lparr>m_file_path = ''src/main.cpp'', m_file_line = 68, m_func = ''main''\<rparr>
       = ''main(), TID: 12: ''"
proof -
  let ?s = "\<lparr>curPrefixes = prefix_or FUNCTION (prefix_or TIME THREAD),
             outputEnabled = True, colorEnabled = False\<rparr>"
  let ?p = "\<lparr>m_file_path = ''src/main.cpp'', m_file_line = 68, m_func = ''main''\<rparr>"
  have none: "localtime no_local_time = None"
    by (simp add: no_local_time_def)
  have time': "prefix_and (prefix_or FUNCTION (prefix_or TIME THREAD)) TIME \<noteq> NONE"
    by (simp add: prefix_and_def prefix_or_def NONE_def FUNCTION_def TIME_def THREAD_def)
  then have time: "prefix_and (curPrefixes ?s) TIME \<noteq> NONE"
    by simp
  have fields: "filter (\<lambda>k. k \<noteq> Time) (enabled_fields (curPrefixes ?s)) = [Function, Thread]"
    by (simp add: enabled_fields_def prefix_and_def prefix_or_def NONE_def FILE_def LINE_def
        FUNCTION_def TIME_def THREAD_def)
  have "Prefixer_out ?s no_local_time ?p
        = prefix_of_fields no_local_time ?p
            (filter (\<lambda>k. k \<noteq> Time) (enabled_fields (curPrefixes ?s)))"
    using failed_local_time_omits_time[OF none time] by (rule conjunct2)
  also have "\<dots> = ''main(), TID: 12: ''"
    unfolding fields by (simp add: prefix_of_fields_def no_local_time_def)
  finally have out: "Prefixer_out ?s no_local_time ?p = ''main(), TID: 12: ''" .
  show ?thesis
    by (intro conjI none time' out)
qed

section \<open>Stacks, queues and quoted scalars\<close>

text \<open>
  A stack and a priority queue are written as \<^verbatim>\<open>{}\<close> when empty, as the top
  between braces when they hold one element, and as the top followed by \<^verbatim>\<open>, ...\<close>
  when they hold more. A queue is written as \<^verbatim>\<open>{}\<close>, the front, the front and the
  back, or the front, \<^verbatim>\<open>...\<close> and the back, for sizes 0, 1, 2 and above. No other
  element appears. The top of a stack and the ends of a queue are plain lvalues; the
  top of a priority queue is a const lvalue.
\<close>

lemma stack_queue_summary:
  "stringify (Plain (Stack [])) = ''{}''
   \<and> stringify (Plain (Stack [t])) = ''{'' @ stringify (Plain t) @ ''}''
   \<and> stringify (Plain (Stack (t # u # us))) = ''{'' @ stringify (Plain t) @ '', ...}''
   \<and> stringify (Plain (PriorityQueue [])) = ''{}''
   \<and> stringify (Plain (PriorityQueue [c])) = ''{'' @ stringify (Const c) @ ''}''
   \<and> stringify (Plain (PriorityQueue (c # d # ds))) = ''{'' @ stringify (Const c) @ '', ...}''
   \<and> stringify (Plain (Queue [])) = ''{}''
   \<and> stringify (Plain (Queue [t])) = ''{'' @ stringify (Plain t) @ ''}''
   \<and> stringify (Plain (Queue [t, b]))
       = ''{'' @ stringify (Plain t) @ '', '' @ stringify (Plain b) @ ''}''
   \<and> stringify (Plain (Queue (t # u # us @ [b])))
       = ''{'' @ stringify (Plain t) @ '', ..., '' @ stringify (Plain b) @ ''}''"
  by simp

text \<open>
  A plain lvalue of type \<^verbatim>\<open>char\<close>, \<^verbatim>\<open>signed char\<close> or \<^verbatim>\<open>unsigned char\<close> is
  written as a single quote, the character itself and a single quote, also when the
  character is a single quote. A plain lvalue of type \<^verbatim>\<open>char*\<close>, \<^verbatim>\<open>const char*\<close>
  or \<^verbatim>\<open>std::string\<close> is written as a double quote, its characters as they are, and
  a double quote. Nothing is escaped.
\<close>

lemma quotes_not_escaped:
  "stringify (Plain (Scalar (SChar c))) = [CHR 0x27, c, CHR 0x27]
   \<and> stringify (Plain (Scalar (SSChar c))) = [CHR 0x27, c, CHR 0x27]
   \<and> stringify (Plain (Scalar (SUChar c))) = [CHR 0x27, c, CHR 0x27]
   \<and> stringify (Plain (Scalar (SChar (CHR 0x27)))) = [CHR 0x27, CHR 0x27, CHR 0x27]
   \<and> stringify (Plain (Scalar (SCharPtr t))) = [CHR 0x22] @ t @ [CHR 0x22]
   \<and> stringify (Plain (Scalar (SConstCharPtr t))) = [CHR 0x22] @ t @ [CHR 0x22]
   \<and> stringify (Plain (Scalar (SString t))) = [CHR 0x22] @ t @ [CHR 0x22]
   \<and> stringify (Plain (Scalar (SString [CHR 0x22, CHR ''{'', CHR '','', CHR ''}''])))
       = [CHR 0x22, CHR 0x22, CHR ''{'', CHR '','', CHR ''}'', CHR 0x22]"
  by simp

text \<open>
  A const lvalue, and an array of characters, is written as the stream writes it: no
  quotes, and a \<^verbatim>\<open>bool\<close> as \<^verbatim>\<open>1\<close> or \<^verbatim>\<open>0\<close>.
\<close>

lemma const_lvalue_unformatted:
  "stringify (Const c) = stream_out c"
  "stringify (Plain (Scalar (SCharArray t))) = t"
  by simp_all

section \<open>Values that miss the specialisations\<close>

text \<open>
  C3 at a \<^verbatim>\<open>std::set<std::string>\<close> holding \<^verbatim>\<open>"a"\<close>. The set is written as
  \<^verbatim>\<open>{a}\<close>, while the formatter's rendering of the string \<^verbatim>\<open>"a"\<close> carries the
  double quotes: the set is not the join of its elements' renderings.
\<close>

theorem set_of_strings_unquoted:
  "stringify (Plain (SetC [SString ''a''])) = ''{a}''
   \<and> stringify (Plain (Scalar (SString ''a''))) = [CHR 0x22, CHR ''a'', CHR 0x22]
   \<and> stringify (Plain (SetC [SString ''a'']))
       \<noteq> ''{'' @ join '', '' (map (\<lambda>e. stringify (Plain (Scalar e))) [SString ''a'']) @ ''}''"
  by (simp add: sequence_def)


text \<open>
  C10 at \<^verbatim>\<open>const char k = 'k'\<close>, at \<^verbatim>\<open>const std::string s = "s"\<close> and at
  \<^verbatim>\<open>char buf[] = "abc"\<close>. They are written as \<^verbatim>\<open>k\<close>, \<^verbatim>\<open>s\<close> and \<^verbatim>\<open>abc\<close>, with
  no quote at all, where the same values in variables of type \<^verbatim>\<open>char\<close>,
  \<^verbatim>\<open>std::string\<close> and \<^verbatim>\<open>char*\<close> are written between quotes.
\<close>

theorem const_scalars_unquoted:
  "stringify (Const (SChar (CHR ''k''))) = ''k''
   \<and> stringify (Plain (Scalar (SChar (CHR ''k'')))) = [CHR 0x27, CHR ''k'', CHR 0x27]
   \<and> stringify (Const (SString ''s'')) = ''s''
   \<and> stringify (Plain (Scalar (SString ''s''))) = [CHR 0x22, CHR ''s'', CHR 0x22]
   \<and> stringify (Plain (Scalar (SCharArray ''abc''))) = ''abc''
   \<and> stringify (Plain (Scalar (SCharPtr ''abc'')))
       = [CHR 0x22, CHR ''a'', CHR ''b'', CHR ''c'', CHR 0x22]"
  by simp

section \<open>Scalar lists\<close>

text \<open>
  An enabled scalar-list emission of 1 to 16 arguments writes, between the prefix and
  the end of the line, the pairs in the order of the arguments, joined by \<open>", "\<close>; a
  pair is \<open>"type "\<close> if \<^verbatim>\<open>TYPE_NAME\<close> is in the mask, the text of the argument after
  macro replacement, \<open>" = "\<close> and the value as \<^verbatim>\<open>stringify\<close> writes its lvalue.
\<close>

lemma scalar_list_record:
  assumes "1 \<le> length args" and "length args \<le> 16" and "outputEnabled s"
  shows "l s pf replaced file line func args
         = Inr \<lparr>constructed = [\<lparr>m_file_path = file, m_file_line = line, m_func = func\<rparr>],
                written = color_start s
                  @ Prefixer_out s pf \<lparr>m_file_path = file, m_file_line = line, m_func = func\<rparr>
                  @ join '', '' (map (\<lambda>a. pair_text s (replaced (fst a), snd a)) args)
                  @ color_end s @ GL_NEWLINE\<rparr>"
proof -
  from assms(1) have "map (\<lambda>a. (replaced (fst a), snd a)) args \<noteq> []"
    by auto
  then have "GL_INTERNAL_L s (map (\<lambda>a. (replaced (fst a), snd a)) args)
             = join '', '' (map (pair_text s) (map (\<lambda>a. (replaced (fst a), snd a)) args))"
    by (rule GL_INTERNAL_L_join)
  with assms show ?thesis
    by (simp add: l_def GL_INTERNAL_L_DISPATCH_def Let_def comp_def)
qed

lemma plain_config:
  "color_start \<lparr>curPrefixes = NONE, outputEnabled = True, colorEnabled = False\<rparr> = []"
  "color_end \<lparr>curPrefixes = NONE, outputEnabled = True, colorEnabled = False\<rparr> = []"
  "type_name \<lparr>curPrefixes = NONE, outputEnabled = True, colorEnabled = False\<rparr> = []"
  "pair_text \<lparr>curPrefixes = NONE, outputEnabled = True, colorEnabled = False\<rparr> a
   = fst a @ '' = '' @ stringify (snd a)"
  by (simp_all add: color_start_def color_end_def type_name_def pair_text_def prefix_and_def
      NONE_def)

lemma show_int_5: "show_int 5 = ''5''"
  by (simp add: show_int_def show_nat.simps digit_def)

text \<open>
  C4 after \<^verbatim>\<open>#define MX my_var\<close> with \<^verbatim>\<open>int my_var = 5\<close>, and at
  \<^verbatim>\<open>const std::string s = "s"\<close>, for the mask \<^verbatim>\<open>NONE\<close>. \<^verbatim>\<open>l(MX)\<close> writes
  \<^verbatim>\<open>my_var = 5\<close>, not the text \<^verbatim>\<open>MX\<close> of the argument, while \<^verbatim>\<open>l_arr(MX, 1)\<close> on
  an array writes the name \<^verbatim>\<open>MX\<close>. \<^verbatim>\<open>l(s)\<close> writes \<^verbatim>\<open>s = s\<close>, not the formatted
  value \<^verbatim>\<open>"s"\<close>.
\<close>

theorem scalar_list_text_replaced:
  "l \<lparr>curPrefixes = NONE, outputEnabled = True, colorEnabled = False\<rparr> posix MX_defined
      ''src/main.cpp'' 68 ''main'' [(''MX'', int_cell 5)]
   = Inr \<lparr>constructed = [\<lparr>m_file_path = ''src/main.cpp'', m_file_line = 68,
                             m_func = ''main''\<rparr>],
          written = ''my_var = 5'' @ [CHR 0x0A]\<rparr>
   \<and> l_arr \<lparr>curPrefixes = NONE, outputEnabled = True, colorEnabled = False\<rparr> posix
      ''src/main.cpp'' 69 ''main'' ''MX'' [int_cell 5] 1
   = Inr \<lparr>constructed = [\<lparr>m_file_path = ''src/main.cpp'', m_file_line = 69,
                             m_func = ''main''\<rparr>],
          written = ''MX = {5}'' @ [CHR 0x0A]\<rparr>
   \<and> l \<lparr>curPrefixes = NONE, outputEnabled = True, colorEnabled = False\<rparr> posix no_macros
      ''src/main.cpp'' 70 ''main'' [(''s'', Const (SString ''s''))]
   = Inr \<lparr>constructed = [\<lparr>m_file_path = ''src/main.cpp'', m_file_line = 70,
                             m_func = ''main''\<rparr>],
          written = ''s = s'' @ [CHR 0x0A]\<rparr>
   \<and> stringify (Plain (Scalar (SString ''s''))) = [CHR 0x22, CHR ''s'', CHR 0x22]"
proof -
  let ?s = "\<lparr>curPrefixes = NONE, outputEnabled = True, colorEnabled = False\<rparr>"
  have pre: "Prefixer_out ?s posix p = []" for p
    by (rule mask_NONE_prefix) simp
  have scalar: "l ?s posix MX_defined ''src/main.cpp'' 68 ''main'' [(''MX'', int_cell 5)]
     = Inr \<lparr>constructed = [\<lparr>m_file_path = ''src/main.cpp'', m_file_line = 68,
                               m_func = ''main''\<rparr>],
            written = ''my_var = 5'' @ [CHR 0x0A]\<rparr>"
    by (simp add: scalar_list_record pre plain_config MX_defined_def int_cell_def show_int_5
        GL_NEWLINE_def)
  have array: "l_arr ?s posix ''src/main.cpp'' 69 ''main'' ''MX'' [int_cell 5] 1
     = Inr \<lparr>constructed = [\<lparr>m_file_path = ''src/main.cpp'', m_file_line = 69,
                               m_func = ''main''\<rparr>],
            written = ''MX = {5}'' @ [CHR 0x0A]\<rparr>"
    by (simp add: array_record pre plain_config int_cell_def show_int_5 GL_NEWLINE_def)
  have const: "l ?s posix no_macros ''src/main.cpp'' 70 ''main''
       [(''s'', Const (SString ''s''))]
     = Inr \<lparr>constructed = [\<lparr>m_file_path = ''src/main.cpp'', m_file_line = 70,
                               m_func = ''main''\<rparr>],
            written = ''s = s'' @ [CHR 0x0A]\<rparr>"
    by (simp add: scalar_list_record pre plain_config no_macros_def GL_NEWLINE_def)
  have quoted: "stringify (Plain (Scalar (SString ''s''))) = [CHR 0x22, CHR ''s'', CHR 0x22]"
    by simp
  show ?thesis
    by (intro conjI; fact)
qed

section \<open>Matrices\<close>

text \<open>
  C6. An enabled matrix emission writes, after the prefix, the optional \<open>"type "\<close>,
  the name and \<open>": "\<close>: the text \<^verbatim>\<open>{}\<close> when the number of columns or of rows is 0;
  otherwise, for a matrix of at least that many rows and columns, the entries
  \<open>[i,j] = v\<close> in row-major order joined by \<open>", "\<close>, the same separator within a row
  and between rows. The matrix \<^verbatim>\<open>{{11, 12}, {21, 22}}\<close> named \<^verbatim>\<open>m\<close>, with the mask
  \<^verbatim>\<open>NONE\<close>, gives \<^verbatim>\<open>m: [0,0] = 11, [0,1] = 12, [1,0] = 21, [1,1] = 22\<close> and a
  newline.
\<close>

theorem matrix_record:
  assumes "outputEnabled s"
  shows "(cols = 0 \<or> rows = 0 \<longrightarrow>
            l_mat s pf file line func name cells cols rows
            = Inr \<lparr>constructed = [\<lparr>m_file_path = file, m_file_line = line, m_func = func\<rparr>],
                   written = color_start s
                     @ Prefixer_out s pf
                         \<lparr>m_file_path = file, m_file_line = line, m_func = func\<rparr>
                     @ type_name s @ name @ '': '' @ ''{}'' @ color_end s @ GL_NEWLINE\<rparr>)
         \<and> (0 < cols \<and> 0 < rows \<and> rows \<le> length cells
              \<and> (\<forall>r \<in> set (take rows cells). cols \<le> length r) \<longrightarrow>
            l_mat s pf file line func name cells cols rows
            = Inr \<lparr>constructed = [\<lparr>m_file_path = file, m_file_line = line, m_func = func\<rparr>],
                   written = color_start s
                     @ Prefixer_out s pf
                         \<lparr>m_file_path = file, m_file_line = line, m_func = func\<rparr>
                     @ type_name s @ name @ '': ''
                     @ join '', '' (matrix_entries cells cols rows)
                     @ color_end s @ GL_NEWLINE\<rparr>)
         \<and> l_mat \<lparr>curPrefixes = NONE, outputEnabled = True, colorEnabled = False\<rparr> pf
               file line func ''m''
               [[int_cell 11, int_cell 12], [int_cell 21, int_cell 22]] 2 2
            = Inr \<lparr>constructed = [\<lparr>m_file_path = file, m_file_line = line, m_func = func\<rparr>],
                   written = ''m: [0,0] = 11, [0,1] = 12, [1,0] = 21, [1,1] = 22''
                     @ [CHR 0x0A]\<rparr>"
proof (intro conjI impI)
  let ?p = "\<lparr>m_file_path = file, m_file_line = line, m_func = func\<rparr>"
  show "l_mat s pf file line func name cells cols rows
        = Inr \<lparr>constructed = [?p],
               written = color_start s @ Prefixer_out s pf ?p
                 @ type_name s @ name @ '': '' @ ''{}'' @ color_end s @ GL_NEWLINE\<rparr>"
    if "cols = 0 \<or> rows = 0"
    using assms that by (auto simp: l_mat_def Matrix_out_def Let_def)
  show "l_mat s pf file line func name cells cols rows
        = Inr \<lparr>constructed = [?p],
               written = color_start s @ Prefixer_out s pf ?p
                 @ type_name s @ name @ '': ''
                 @ join '', '' (matrix_entries cells cols rows)
                 @ color_end s @ GL_NEWLINE\<rparr>"
    if "0 < cols \<and> 0 < rows \<and> rows \<le> length cells
        \<and> (\<forall>r \<in> set (take rows cells). cols \<le> length r)"
  proof -
    from that have pos: "0 < cols" "0 < rows" and fits: "rows \<le> length cells"
      "list_all (\<lambda>r. cols \<le> length r) (take rows cells)"
      by (simp_all add: list_all_iff)
    note body = matrix_body[OF pos, of cells]
    from assms pos fits show ?thesis
      by (simp add: l_mat_def Matrix_out_def Let_def body[symmetric])
  qed
  let ?s = "\<lparr>curPrefixes = NONE, outputEnabled = True, colorEnabled = False\<rparr>"
  have pre: "Prefixer_out ?s pf ?p = []"
    by (rule mask_NONE_prefix) simp
  have plain: "color_start ?s = []" "color_end ?s = []" "type_name ?s = []"
    by (simp_all add: color_start_def color_end_def type_name_def prefix_and_def NONE_def)
  have digits: "show_nat 0 = ''0''" "show_nat (Suc 0) = ''1''"
    by (simp_all add: show_nat.simps digit_def)
  have cells: "show_int 11 = ''11''" "show_int 12 = ''12''" "show_int 21 = ''21''"
    "show_int 22 = ''22''"
    by (simp_all add: show_int_def show_nat.simps digit_def)
  have ranges: "[Suc 0..<2] = [Suc 0]" "[0..<2] = [0, Suc 0]"
    by (simp_all add: upt_rec)
  show "l_mat ?s pf file line func ''m''
          [[int_cell 11, int_cell 12], [int_cell 21, int_cell 22]] 2 2
        = Inr \<lparr>constructed = [?p],
               written = ''m: [0,0] = 11, [0,1] = 12, [1,0] = 21, [1,1] = 22''
                 @ [CHR 0x0A]\<rparr>"
    by (simp add: l_mat_def Matrix_out_def Let_def pre plain ranges digits cells int_cell_def
        GL_NEWLINE_def)
qed

text \<open>
  C6 with the default configuration, for a matrix of two rows and no columns and for
  the matrix \<^verbatim>\<open>{{11, 12}, {21, 22}}\<close>.
\<close>

theorem matrix_record_witness:
  "outputEnabled initial_config
   \<and> l_mat initial_config posix ''src/main.cpp'' 68 ''main'' ''m'' [[], []] 0 2
     = Inr \<lparr>constructed = [\<lparr>m_file_path = ''src/main.cpp'', m_file_line = 68,
                               m_func = ''main''\<rparr>],
            written = ''main.cpp:68: m: {}'' @ [CHR 0x0A]\<rparr>
   \<and> l_mat initial_config posix ''src/main.cpp'' 68 ''main'' ''m''
        [[int_cell 11, int_cell 12], [int_cell 21, int_cell 22]] 2 2
     = Inr \<lparr>constructed = [\<lparr>m_file_path = ''src/main.cpp'', m_file_line = 68,
                               m_func = ''main''\<rparr>],
            written = ''main.cpp:68: m: [0,0] = 11, [0,1] = 12, [1,0] = 21, [1,1] = 22''
              @ [CHR 0x0A]\<rparr>"
proof -
  let ?p = "\<lparr>m_file_path = ''src/main.cpp'', m_file_line = 68, m_func = ''main''\<rparr>"
  let ?cells = "[[int_cell 11, int_cell 12], [int_cell 21, int_cell 22]]"
  note on = initial_config_plain(4)
  note shape = matrix_record[OF on, of _ _ posix "''src/main.cpp''" 68 "''main''" "''m''"]
  have "l_mat initial_config posix ''src/main.cpp'' 68 ''main'' ''m'' [[], []] 0 2
        = Inr \<lparr>constructed = [?p],
               written = color_start initial_config @ Prefixer_out initial_config posix ?p
                 @ type_name initial_config @ ''m'' @ '': '' @ ''{}''
                 @ color_end initial_config @ GL_NEWLINE\<rparr>"
    using shape[of 0 2 "[[], []]"] by simp
  then have empty: "l_mat initial_config posix ''src/main.cpp'' 68 ''main'' ''m'' [[], []] 0 2
        = Inr \<lparr>constructed = [?p], written = ''main.cpp:68: m: {}'' @ [CHR 0x0A]\<rparr>"
    unfolding initial_config_prefix initial_config_plain by (simp add: GL_NEWLINE_def)
  have "l_mat initial_config posix ''src/main.cpp'' 68 ''main'' ''m'' ?cells 2 2
        = Inr \<lparr>constructed = [?p],
               written = color_start initial_config @ Prefixer_out initial_config posix ?p
                 @ type_name initial_config @ ''m'' @ '': ''
                 @ join '', '' (matrix_entries ?cells 2 2)
                 @ color_end initial_config @ GL_NEWLINE\<rparr>"
    using shape[of 2 2 ?cells] by simp
  then have full: "l_mat initial_config posix ''src/main.cpp'' 68 ''main'' ''m'' ?cells 2 2
        = Inr \<lparr>constructed = [?p],
               written = ''main.cpp:68: m: [0,0] = 11, [0,1] = 12, [1,0] = 21, [1,1] = 22''
                 @ [CHR 0x0A]\<rparr>"
    unfolding initial_config_prefix initial_config_plain two_by_two_entries
    by (simp add: GL_NEWLINE_def)
  show ?thesis
    by (intro conjI on empty full)
qed

section \<open>The decorator of a suppressed record\<close>

text \<open>
  C9 as stated. A disabled scalar-list emission constructs no \<^verbatim>\<open>Prefixer\<close>.
\<close>

theorem disabled_scalar_list_constructs_nothing:
  "l disabled_config posix no_macros ''src/main.cpp'' 68 ''main'' [(''i'', int_cell 1)]
   = Inr \<lparr>constructed = [], written = []\<rparr>"
  by (simp add: l_def GL_INTERNAL_L_DISPATCH_def disabled_config_def)

text \<open>
  C9, amended. With \<^verbatim>\<open>outputEnabled\<close> false, a scalar-list emission constructs no
  \<^verbatim>\<open>Prefixer\<close> and writes nothing; an array emission and a matrix emission construct
  the \<^verbatim>\<open>Prefixer\<close> of their call site and write nothing.
\<close>

theorem disabled_emission_effects:
  assumes "\<not> outputEnabled s" and "1 \<le> length args" and "length args \<le> 16"
  shows "l s pf replaced file line func args = Inr \<lparr>constructed = [], written = []\<rparr>
         \<and> l_arr s pf file line func name vals len
           = Inr \<lparr>constructed = [\<lparr>m_file_path = file, m_file_line = line, m_func = func\<rparr>],
                  written = []\<rparr>
         \<and> l_mat s pf file line func name cells cols rows
           = Inr \<lparr>constructed = [\<lparr>m_file_path = file, m_file_line = line, m_func = func\<rparr>],
                  written = []\<rparr>"
  using assms
  by (simp add: l_def GL_INTERNAL_L_DISPATCH_def l_arr_def Array_out_def l_mat_def
      Matrix_out_def)

text \<open>C9, amended, at a disabled configuration.\<close>

theorem disabled_emission_effects_witness:
  "\<not> outputEnabled disabled_config
   \<and> l disabled_config posix no_macros ''src/main.cpp'' 68 ''main''
        [(''i'', int_cell 1), (''j'', int_cell 2)]
     = Inr \<lparr>constructed = [], written = []\<rparr>
   \<and> l_arr disabled_config posix ''src/main.cpp'' 70 ''main'' ''a'' [int_cell 0] 1
     = Inr \<lparr>constructed = [\<lparr>m_file_path = ''src/main.cpp'', m_file_line = 70,
                               m_func = ''main''\<rparr>],
            written = []\<rparr>"
proof -
  have off: "\<not> outputEnabled disabled_config"
    by (simp add: disabled_config_def)
  have arity: "1 \<le> length [(''i'', int_cell 1), (''j'', int_cell 2)]"
    "length [(''i'', int_cell 1), (''j'', int_cell 2)] \<le> 16"
    by simp_all
  note effects = disabled_emission_effects[OF off arity]
  from effects[of posix no_macros "''src/main.cpp''" 68 "''main''"]
  have scalar: "l disabled_config posix no_macros ''src/main.cpp'' 68 ''main''
        [(''i'', int_cell 1), (''j'', int_cell 2)]
     = Inr \<lparr>constructed = [], written = []\<rparr>"
    by (rule conjunct1)
  from effects[of posix no_macros "''src/main.cpp''" 70 "''main''" "''a''" "[int_cell 0]" 1]
  have array: "l_arr disabled_config posix ''src/main.cpp'' 70 ''main'' ''a'' [int_cell 0] 1
     = Inr \<lparr>constructed = [\<lparr>m_file_path = ''src/main.cpp'', m_file_line = 70,
                               m_func = ''main''\<rparr>],
            written = []\<rparr>"
    by (rule conjunct2[THEN conjunct1])
  show ?thesis
    by (intro conjI off scalar array)
qed

section \<open>Prefix masks\<close>

text \<open>
  C7. Reading the mask after \<^verbatim>\<open>set_prefixes(m1)\<close> gives \<open>m1\<close> back; union is
  idempotent; union, intersection and symmetric difference are commutative; and the
  symmetric difference of a mask with itself is \<^verbatim>\<open>NONE\<close>.
\<close>

theorem prefix_mask_algebra:
  "get_prefixes (set_prefixes m1 s) = m1
   \<and> prefix_or m m = m
   \<and> prefix_or m1 m2 = prefix_or m2 m1
   \<and> prefix_and m1 m2 = prefix_and m2 m1
   \<and> prefix_xor m1 m2 = prefix_xor m2 m1
   \<and> prefix_xor m m = NONE"
  by (simp add: get_prefixes_def set_prefixes_def prefix_or_def prefix_and_def
      prefix_xor_def NONE_def or.commute and.commute xor.commute)

end
